theory Spec2Isabelle
  imports Complex_Main
begin

section \<open>Values of the sheet\<close>

text \<open>
  Sipri.py reads two tabs of a workbook with pandas, reshapes each into a long frame with
  the columns Year, Country (or Region) and Budget, and derives selections from them.
  The frames hold Python objects. A double is one of the constructors of \<open>pyfloat\<close>;
  \<open>Finite x\<close> carries the real number the double denotes, so the rounding and the
  overflow of arithmetic and the sign of zero are left out.
\<close>

datatype pyfloat = Finite real | PInf | NInf | NaN

text \<open>
  A cell of a frame of dtype object: an int, a float (an empty cell of the sheet is read
  as the float NaN), a str (the bytes of its UTF-8 encoding), or a date or a time, which
  the reader returns as a datetime object; two of these are told apart by a number.
  Boolean cells are left out.
\<close>

datatype cell = CInt int | CFloat pyfloat | CStr string | CDate nat

datatype error = ValueError | TypeError | OverflowError | IndexError | AttributeError

fun number :: "cell \<Rightarrow> pyfloat option" where
  "number (CInt n) = Some (Finite (of_int n))"
| "number (CFloat f) = Some f"
| "number (CStr s) = None"
| "number (CDate a) = None"

text \<open>Python's \<open>==\<close> on two cells: numbers by value (NaN equals nothing), text by text.\<close>

fun py_eq :: "cell \<Rightarrow> cell \<Rightarrow> bool" where
  "py_eq (CStr s) (CStr t) = (s = t)"
| "py_eq (CDate a) (CDate b) = (a = b)"
| "py_eq a b = (case (number a, number b) of
       (Some x, Some y) \<Rightarrow> x = y \<and> x \<noteq> NaN
     | _ \<Rightarrow> False)"

text \<open>\<open>Series.isin\<close> on a column of objects: equal to a listed value, NaN matching NaN.\<close>

definition matches :: "cell \<Rightarrow> cell \<Rightarrow> bool" where
  "matches c x = (c = x \<or> py_eq c x)"

definition isin :: "cell \<Rightarrow> cell list \<Rightarrow> bool" where
  "isin c xs = (\<exists>x\<in>set xs. matches c x)"

definition isna :: "cell \<Rightarrow> bool" where
  "isna c = (c = CFloat NaN)"

section \<open>Text to number\<close>

text \<open>
  The two library conversions the code calls on text: Python's \<open>float(str)\<close> and the
  parser behind \<open>pd.to_numeric\<close>. Both read an optional sign, digits with an optional
  point and an optional exponent, or one of the words inf, infinity and nan in any case.
  \<open>float\<close> first turns the white space and the decimal digits of Unicode into a blank
  and into ASCII digits; the parser of pandas reads ASCII only.
\<close>

definition is_digit :: "char \<Rightarrow> bool" where
  "is_digit c = (c \<in> set ''0123456789'')"

definition digit_val :: "char \<Rightarrow> nat" where
  "digit_val c = of_char c - 48"

definition digits_val :: "string \<Rightarrow> nat" where
  "digits_val ds = foldl (\<lambda>a c. 10 * a + digit_val c) 0 ds"

definition lower :: "char \<Rightarrow> char" where
  "lower c = (case map_of (zip ''ABCDEFGHIJKLMNOPQRSTUVWXYZ'' ''abcdefghijklmnopqrstuvwxyz'') c of
       Some d \<Rightarrow> d
     | None \<Rightarrow> c)"

definition py_space :: "char \<Rightarrow> bool" where
  "py_space c = (c \<in> set [CHR 0x09, CHR 0x0A, CHR 0x0B, CHR 0x0C, CHR 0x0D, CHR 0x20])"

definition pd_space :: "char \<Rightarrow> bool" where
  "pd_space c = (c \<in> set [CHR 0x09, CHR 0x0A, CHR 0x0B, CHR 0x0C, CHR 0x0D, CHR 0x20])"

definition strip :: "(char \<Rightarrow> bool) \<Rightarrow> string \<Rightarrow> string" where
  "strip ws s = rev (dropWhile ws (rev (dropWhile ws s)))"

definition split_sign :: "string \<Rightarrow> bool \<times> string" where
  "split_sign s = (case s of
       [] \<Rightarrow> (False, [])
     | c # cs \<Rightarrow> if c = CHR ''-'' then (True, cs)
                else if c = CHR ''+'' then (False, cs)
                else (False, s))"

text \<open>
  \<open>float\<close> accepts one underscore between two digits and drops it; the first argument
  is the character before.
\<close>

fun underscores :: "char \<Rightarrow> string \<Rightarrow> string option" where
  "underscores prev [] = (if prev = CHR ''_'' then None else Some [])"
| "underscores prev (c # cs) =
     (if c = CHR ''_'' then (if is_digit prev then underscores c cs else None)
      else if prev = CHR ''_'' \<and> \<not> is_digit c then None
      else map_option ((#) c) (underscores c cs))"

text \<open>
  An unsigned decimal literal: the digits without the point, the power of ten to scale
  them by, and whether the literal is a plain integer (no point, no exponent).
\<close>

definition decimal :: "string \<Rightarrow> (nat \<times> int \<times> bool) option" where
  "decimal s =
     (let ip = takeWhile is_digit s;
          r1 = dropWhile is_digit s;
          has_point = (r1 \<noteq> [] \<and> hd r1 = CHR ''.'');
          fp = (if has_point then takeWhile is_digit (tl r1) else []);
          r2 = (if has_point then dropWhile is_digit (tl r1) else r1)
      in if ip = [] \<and> fp = [] then None
         else if r2 = [] then Some (digits_val (ip @ fp), - int (length fp), \<not> has_point)
         else if hd r2 = CHR ''e'' \<or> hd r2 = CHR ''E'' then
           (case split_sign (tl r2) of (neg, r3) \<Rightarrow>
              if r3 = [] \<or> \<not> list_all is_digit r3 then None
              else Some (digits_val (ip @ fp),
                         (if neg then - int (digits_val r3) else int (digits_val r3))
                           - int (length fp),
                         False))
         else None)"

definition scale :: "bool \<Rightarrow> nat \<Rightarrow> int \<Rightarrow> real" where
  "scale neg m e =
     (if neg then - 1 else 1) * (if 0 \<le> e then real m * 10 ^ nat e else real m / 10 ^ nat (- e))"

text \<open>Magnitudes from here on round to an infinity.\<close>

definition double_overflow :: real where
  "double_overflow = 2 ^ 1024 - 2 ^ 970"

definition to_double :: "real \<Rightarrow> pyfloat" where
  "to_double v = (if double_overflow \<le> v then PInf
                  else if v \<le> - double_overflow then NInf
                  else Finite v)"

definition special :: "string \<Rightarrow> pyfloat option" where
  "special s = (case split_sign s of (neg, r) \<Rightarrow>
     (let w = map lower r
      in if w = ''inf'' \<or> w = ''infinity'' then Some (if neg then NInf else PInf)
         else if w = ''nan'' then Some NaN
         else None))"

text \<open>
  The characters beyond ASCII that \<open>float\<close> accepts, by code point (Unicode 14): the
  white space, and the digit zero of each script, which the digits one to nine follow.
\<close>

definition unicode_spaces :: "nat list" where
  "unicode_spaces =
     [0x85, 0xA0, 0x1680, 0x2000, 0x2001, 0x2002, 0x2003, 0x2004, 0x2005, 0x2006, 0x2007,
      0x2008, 0x2009, 0x200A, 0x2028, 0x2029, 0x202F, 0x205F, 0x3000]"

definition unicode_zeros :: "nat list" where
  "unicode_zeros =
     [1632, 1776, 1984, 2406, 2534, 2662, 2790, 2918, 3046, 3174, 3302, 3430, 3558, 3664,
      3792, 3872, 4160, 4240, 6112, 6160, 6470, 6608, 6784, 6800, 6992, 7088, 7232, 7248,
      42528, 43216, 43264, 43472, 43504, 43600, 44016, 65296, 66720, 68912, 69734, 69872,
      69942, 70096, 70384, 70736, 70864, 71248, 71360, 71472, 71904, 72016, 72784, 73040,
      73120, 92768, 92864, 93008, 120782, 120792, 120802, 120812, 120822, 123200, 123632,
      125264, 130032]"

text \<open>The number of bytes of the UTF-8 character that a byte starts; 0 when it starts none.\<close>

definition utf8_length :: "nat \<Rightarrow> nat" where
  "utf8_length b =
     (if b < 128 then 1
      else if 192 \<le> b \<and> b < 224 then 2
      else if 224 \<le> b \<and> b < 240 then 3
      else if 240 \<le> b \<and> b < 248 then 4
      else 0)"

definition continuation :: "char \<Rightarrow> bool" where
  "continuation c = (128 \<le> (of_char c :: nat) \<and> (of_char c :: nat) < 192)"

definition code_point :: "nat list \<Rightarrow> nat" where
  "code_point bs =
     (case bs of
        [a, b] \<Rightarrow> (a - 192) * 64 + (b - 128)
      | [a, b, c] \<Rightarrow> ((a - 224) * 64 + (b - 128)) * 64 + (c - 128)
      | [a, b, c, d] \<Rightarrow> (((a - 240) * 64 + (b - 128)) * 64 + (c - 128)) * 64 + (d - 128)
      | _ \<Rightarrow> 0)"

definition ascii_of :: "nat \<Rightarrow> char option" where
  "ascii_of cp =
     (if cp \<in> set unicode_spaces then Some (CHR '' '')
      else case find (\<lambda>z. z \<le> cp \<and> cp < z + 10) unicode_zeros of
             Some z \<Rightarrow> Some (''0123456789'' ! (cp - z))
           | None \<Rightarrow> None)"

text \<open>
  The str as \<open>float\<close> parses it: ASCII characters stay, a white space beyond ASCII
  becomes a blank and a decimal digit its ASCII digit. Any other character (and the
  character 127) makes the text unreadable, which is \<open>None\<close>.
\<close>

function to_ascii :: "string \<Rightarrow> string option" where
  "to_ascii [] = Some []"
| "to_ascii (c # cs) =
     (let n = utf8_length (of_char c)
      in if n = 1
         then (if (of_char c :: nat) < 127 then map_option ((#) c) (to_ascii cs) else None)
         else if n = 0 \<or> length cs < n - 1 \<or> \<not> list_all continuation (take (n - 1) cs)
         then None
         else (case ascii_of (code_point (map of_char (c # take (n - 1) cs))) of
                 None \<Rightarrow> None
               | Some a \<Rightarrow> map_option ((#) a) (to_ascii (drop (n - 1) cs))))"
  by pat_completeness auto
termination
  by (relation "measure length") auto

text \<open>\<open>float(s)\<close> for a str; \<open>None\<close> is the ValueError.\<close>

definition float_of_str :: "string \<Rightarrow> pyfloat option" where
  "float_of_str s =
     (case to_ascii s of
        None \<Rightarrow> None
      | Some a \<Rightarrow>
          (case underscores (CHR 0x00) (strip py_space a) of
             None \<Rightarrow> None
           | Some t \<Rightarrow>
               (case special t of
                  Some f \<Rightarrow> Some f
                | None \<Rightarrow>
                    (case split_sign t of (neg, r) \<Rightarrow>
                       (case decimal r of
                          None \<Rightarrow> None
                        | Some (m, e, i) \<Rightarrow> Some (to_double (scale neg m e)))))))"

text \<open>\<open>float(item)\<close> for a cell.\<close>

fun py_float :: "cell \<Rightarrow> error + pyfloat" where
  "py_float (CInt n) =
     (if \<bar>real_of_int n\<bar> < double_overflow then Inr (Finite (of_int n)) else Inl OverflowError)"
| "py_float (CFloat f) = Inr f"
| "py_float (CStr s) = (case float_of_str s of None \<Rightarrow> Inl ValueError | Some f \<Rightarrow> Inr f)"
| "py_float (CDate a) = Inl TypeError"

text \<open>A value of \<open>pd.to_numeric\<close>: an integer or a float.\<close>

datatype pynum = NInt int | NFloat pyfloat

definition numeric_of_str :: "string \<Rightarrow> pynum option" where
  "numeric_of_str s =
     (case split_sign (strip pd_space s) of (neg, r) \<Rightarrow>
        (case decimal r of
           Some (m, e, i) \<Rightarrow>
             if i then Some (NInt (if neg then - int m else int m))
             else if double_overflow \<le> \<bar>scale neg m e\<bar> then None
             else Some (NFloat (Finite (scale neg m e)))
         | None \<Rightarrow> map_option NFloat (special s)))"

fun numeric_of_cell :: "cell \<Rightarrow> error + pynum" where
  "numeric_of_cell (CInt n) =
     (if \<bar>real_of_int n\<bar> < double_overflow then Inr (NInt n) else Inl OverflowError)"
| "numeric_of_cell (CFloat f) = Inr (NFloat f)"
| "numeric_of_cell (CStr s) =
     (case numeric_of_str s of None \<Rightarrow> Inl ValueError | Some v \<Rightarrow> Inr v)"
| "numeric_of_cell (CDate a) = Inl TypeError"

text \<open>Applying a function that may raise along a column: the first error ends it.\<close>

fun traverse :: "('a \<Rightarrow> error + 'b) \<Rightarrow> 'a list \<Rightarrow> error + 'b list" where
  "traverse f [] = Inr []"
| "traverse f (x # xs) =
     (case f x of
        Inl e \<Rightarrow> Inl e
      | Inr y \<Rightarrow> (case traverse f xs of Inl e \<Rightarrow> Inl e | Inr ys \<Rightarrow> Inr (y # ys)))"

text \<open>
  \<open>downcast="integer"\<close>: the column becomes an integer column when every value lies
  within 1e-8 of the signed 64-bit integer it truncates to; otherwise it is a float
  column.
\<close>

definition int64 :: "int \<Rightarrow> bool" where
  "int64 n = (- (2 ^ 63) \<le> n \<and> n < 2 ^ 63)"

definition trunc :: "real \<Rightarrow> int" where
  "trunc x = (if 0 \<le> x then \<lfloor>x\<rfloor> else \<lceil>x\<rceil>)"

fun downcast :: "pynum \<Rightarrow> int option" where
  "downcast (NInt n) = (if int64 n then Some n else None)"
| "downcast (NFloat (Finite x)) =
     (if \<bar>real_of_int (trunc x) - x\<bar> \<le> 1 / 10 ^ 8 \<and> int64 (trunc x) then Some (trunc x) else None)"
| "downcast (NFloat f) = None"

fun as_float :: "pynum \<Rightarrow> pyfloat" where
  "as_float (NInt n) = Finite (of_int n)"
| "as_float (NFloat f) = f"

datatype years = IntYears "int list" | FloatYears "pyfloat list"

definition to_numeric :: "cell list \<Rightarrow> error + years" where
  "to_numeric cs =
     (case traverse numeric_of_cell cs of
        Inl e \<Rightarrow> Inl e
      | Inr vs \<Rightarrow>
          if list_all (\<lambda>v. downcast v \<noteq> None) vs then Inr (IntYears (map (the \<circ> downcast) vs))
          else Inr (FloatYears (map as_float vs)))"

section \<open>Sheet\<close>

text \<open>
  A row of a frame: its index label and the three columns. The entity column is named
  Country or Region by \<open>location_type\<close>; the model calls it Entity in both frames.
\<close>

record ('y, 'b) row =
  label :: nat
  Year :: 'y
  Entity :: cell
  Budget :: 'b

type_synonym raw_frame = "(cell, cell) row list"

text \<open>
  The Budget column of a frame is a float64 column after \<open>fix_budget\<close>: it has no
  value of its own for a missing budget, which is stored as NaN.
\<close>

type_synonym frame = "(int, pyfloat) row list"

datatype table = IntTable frame | FloatTable "(pyfloat, pyfloat) row list"

definition with_budget :: "('y, 'a) row \<Rightarrow> 'b \<Rightarrow> ('y, 'b) row" where
  "with_budget r b = \<lparr>label = label r, Year = Year r, Entity = Entity r, Budget = b\<rparr>"

definition with_year :: "('x, 'b) row \<Rightarrow> 'y \<Rightarrow> ('y, 'b) row" where
  "with_year r y = \<lparr>label = label r, Year = y, Entity = Entity r, Budget = Budget r\<rparr>"

definition dropna :: "raw_frame \<Rightarrow> raw_frame" where
  "dropna df = filter (\<lambda>r. \<not> isna (Year r) \<and> \<not> isna (Entity r) \<and> \<not> isna (Budget r)) df"

definition living_countries :: "raw_frame \<Rightarrow> cell list" where
  "living_countries df =
     map Entity (filter (\<lambda>r. py_eq (Year r) (CInt 2020) \<and> \<not> py_eq (Budget r) (CStr ''xxx'')) df)"

definition remove_dead_countries :: "raw_frame \<Rightarrow> raw_frame" where
  "remove_dead_countries df = filter (\<lambda>r. isin (Entity r) (living_countries df)) df"

definition clean_budget :: "cell \<Rightarrow> error + pyfloat option" where
  "clean_budget item =
     (case py_float item of
        Inl ValueError \<Rightarrow> Inr None
      | Inl e \<Rightarrow> Inl e
      | Inr x \<Rightarrow> if x = NaN then Inr None else Inr (Some x))"

text \<open>\<open>astype('float64')\<close> on what \<open>clean_budget\<close> returns: None is stored as NaN.\<close>

fun astype_float64 :: "pyfloat option \<Rightarrow> pyfloat" where
  "astype_float64 None = NaN"
| "astype_float64 (Some x) = x"

definition fix_budget :: "raw_frame \<Rightarrow> error + (cell, pyfloat) row list" where
  "fix_budget df0 =
     (let df = remove_dead_countries (dropna df0)
      in case traverse clean_budget (map Budget df) of
           Inl e \<Rightarrow> Inl e
         | Inr bs \<Rightarrow> Inr (map2 with_budget df (map astype_float64 bs)))"

definition fix_year :: "(cell, pyfloat) row list \<Rightarrow> error + table" where
  "fix_year df0 =
     (let df = filter (\<lambda>r. \<not> py_eq (Year r) (CStr ''2020 Current'')) df0
      in case to_numeric (map Year df) of
           Inl e \<Rightarrow> Inl e
         | Inr (IntYears ys) \<Rightarrow> Inr (IntTable (map2 with_year df ys))
         | Inr (FloatYears fs) \<Rightarrow> Inr (FloatTable (map2 with_year df fs)))"

text \<open>
  \<open>get_df\<close>, from the frame that its first steps leave: \<open>read_excel\<close>,
  \<open>transpose\<close>, \<open>drop\<close>, \<open>fix_header\<close>, \<open>melt\<close> and \<open>rename\<close> read the tab and
  reshape it into one row for each entity and year label, with the columns Year, the
  entity and Budget and the index that \<open>melt\<close> gives. The two steps that decide which
  rows and values the table has follow.
\<close>

definition get_df :: "raw_frame \<Rightarrow> error + table" where
  "get_df melted = (case fix_budget melted of Inl e \<Rightarrow> Inl e | Inr df \<Rightarrow> fix_year df)"

section \<open>Sipri\<close>

text \<open>
  A Sheet after its constructor. The selections below are modelled on sheets whose Year
  column is an integer column, the \<open>IntTable\<close> of \<open>fix_year\<close>.
\<close>

record sheet =
  df :: frame
  sheet_name :: string
  location_type :: string

record sipri =
  constant_USD :: sheet
  regional_totals :: sheet

definition py_range :: "int \<Rightarrow> int \<Rightarrow> int list" where
  "py_range a b = [a..b - 1]"

definition select_df :: "sheet \<Rightarrow> cell list \<Rightarrow> int list \<Rightarrow> int \<Rightarrow> error + frame" where
  "select_df sheet country_names tick_year_list last_year =
     (case tick_year_list of
        [] \<Rightarrow> Inl IndexError
      | t # ts \<Rightarrow>
          (let full_year_list = py_range t last_year
           in Inr (filter (\<lambda>r. Year r \<in> set full_year_list \<and> isin (Entity r) country_names)
                     (df sheet))))"

subsection \<open>Arithmetic on budgets\<close>

fun div1000 :: "pyfloat \<Rightarrow> pyfloat" where
  "div1000 (Finite x) = Finite (x / 1000)"
| "div1000 f = f"

fun fsub :: "pyfloat \<Rightarrow> pyfloat \<Rightarrow> pyfloat" where
  "fsub (Finite a) (Finite b) = Finite (a - b)"
| "fsub NaN y = NaN"
| "fsub x NaN = NaN"
| "fsub PInf PInf = NaN"
| "fsub NInf NInf = NaN"
| "fsub PInf y = PInf"
| "fsub NInf y = NInf"
| "fsub x PInf = NInf"
| "fsub x NInf = PInf"

definition transform_country_to_regional :: "frame \<Rightarrow> frame" where
  "transform_country_to_regional df0 = map (\<lambda>r. with_budget r (div1000 (Budget r))) df0"

subsection \<open>Subtracting two frames indexed by Year\<close>

text \<open>
  \<open>a.set_index('Year') - b.set_index('Year')\<close> on the one column Budget. Frames with
  the same index are subtracted row by row. Otherwise pandas aligns them by an outer
  join: every year of either side appears, in ascending order, once for each pair of
  rows that carry it, and a side without the year contributes NaN, the missing value.
\<close>

type_synonym series = "(int \<times> pyfloat) list"

definition set_index_Year :: "frame \<Rightarrow> series" where
  "set_index_Year df0 = map (\<lambda>r. (Year r, Budget r)) df0"

definition values_at :: "series \<Rightarrow> int \<Rightarrow> pyfloat list" where
  "values_at s y =
     (case map snd (filter (\<lambda>p. fst p = y) s) of
        [] \<Rightarrow> [NaN]
      | b # bs \<Rightarrow> b # bs)"

definition frame_sub :: "series \<Rightarrow> series \<Rightarrow> series" where
  "frame_sub l r =
     (if map fst l = map fst r then map2 (\<lambda>p q. (fst p, fsub (snd p) (snd q))) l r
      else if r = [] then map (\<lambda>p. (fst p, fsub (snd p) NaN)) l
      else if l = [] then map (\<lambda>q. (fst q, fsub NaN (snd q))) r
      else concat (map (\<lambda>y. concat (map (\<lambda>a. map (\<lambda>b. (y, fsub a b)) (values_at r y))
                                          (values_at l y)))
                    (sort (remdups (map fst l @ map fst r)))))"

definition drop_labels :: "nat list \<Rightarrow> frame \<Rightarrow> frame" where
  "drop_labels labels df0 = filter (\<lambda>r. label r \<notin> set labels) df0"

definition subtract_usa_from_americas :: "frame \<Rightarrow> frame \<Rightarrow> frame" where
  "subtract_usa_from_americas region_df usa_df =
     (let americas = filter (\<lambda>r. py_eq (Entity r) (CStr ''Americas'')) region_df;
          diff = frame_sub (set_index_Year americas) (set_index_Year usa_df);
          americas_df = map2 (\<lambda>i p. \<lparr>label = i, Year = fst p,
                                       Entity = CStr ''Americas minus US'', Budget = snd p\<rparr>)
                          [0..<length diff] diff
      in drop_labels (map label americas) region_df @ americas_df)"

definition ignore_index :: "frame \<Rightarrow> frame" where
  "ignore_index df0 = map2 (\<lambda>i r. r\<lparr>label := i\<rparr>) [0..<length df0] df0"

definition merge_USA_into_regional :: "sipri \<Rightarrow> cell list \<Rightarrow> int list \<Rightarrow> error + frame" where
  "merge_USA_into_regional self region_names tick_year_list =
     (case select_df (regional_totals self) region_names tick_year_list 2021 of
        Inl e \<Rightarrow> Inl e
      | Inr region_df \<Rightarrow>
          (case select_df (constant_USD self) [CStr ''USA''] tick_year_list 2021 of
             Inl e \<Rightarrow> Inl e
           | Inr usa_sel \<Rightarrow>
               (let usa_df = transform_country_to_regional usa_sel;
                    region_df' = (if \<exists>n\<in>set region_names. py_eq (CStr ''Americas'') n
                                  then subtract_usa_from_americas region_df usa_df
                                  else region_df)
                in Inr (ignore_index (region_df' @ usa_df)))))"

subsection \<open>Country identifiers\<close>

text \<open>
  \<open>pycountry.countries\<close> is a parameter: its two indexes, \<open>get(name=...)\<close> and
  \<open>get(common_name=...)\<close>, each giving the entry found or None.
\<close>

record country =
  numeric :: string

record pycountry =
  get_name :: "string \<Rightarrow> country option"
  get_common_name :: "string \<Rightarrow> country option"

datatype ident = IdInt int | IdStr string

definition sipri_to_ISO_country_map :: "(string \<times> string) list" where
  "sipri_to_ISO_country_map =
     [(''Cape Verde'', ''Cabo Verde''),
      (''Congo, Republic of'', ''Congo''),
      (''Congo, Dem. Rep.'', ''Congo, The Democratic Republic of the''),
      (''C'' @ [CHR 0xC3, CHR 0xB4] @ ''te d'' @ [CHR 0xE2, CHR 0x80, CHR 0x99] @ ''Ivoire'',
       ''C'' @ [CHR 0xC3, CHR 0xB4] @ ''te d'' @ [CHR 0x27] @ ''Ivoire''),
      (''Trinidad & Tobago'', ''Trinidad and Tobago''),
      (''USA'', ''United States''),
      (''Korea, South'', ''Korea, Republic of''),
      (''Korea, North'', ''Korea, Democratic People'' @ [CHR 0x27] @ ''s Republic of''),
      (''Brunei'', ''Brunei Darussalam''),
      (''Bosnia-Herzegovina'', ''Bosnia and Herzegovina''),
      (''Russia'', ''Russian Federation''),
      (''UK'', ''United Kingdom''),
      (''Iran'', ''Iran, Islamic Republic of''),
      (''Laos'', ''Lao People'' @ [CHR 0x27] @ ''s Democratic Republic''),
      (''Syria'', ''Syrian Arab Republic''),
      (''UAE'', ''United Arab Emirates'')]"

text \<open>\<open>str.replace(old, new)\<close>: every occurrence of \<open>old\<close>, from the left, without overlap.\<close>

function replace :: "string \<Rightarrow> string \<Rightarrow> string \<Rightarrow> string" where
  "replace old new [] = (if old = [] then new else [])"
| "replace old new (c # cs) =
     (if old = [] then new @ c # replace old new cs
      else if take (length old) (c # cs) = old
        then new @ replace old new (drop (length old) (c # cs))
      else c # replace old new cs)"
  by pat_completeness auto
termination
  by (relation "measure (\<lambda>(old, new, s). length s)") auto

definition map_country_name :: "string \<Rightarrow> string" where
  "map_country_name country_name =
     (let mapped_name = (case map_of sipri_to_ISO_country_map country_name of
                           None \<Rightarrow> country_name
                         | Some m \<Rightarrow> m)
      in replace ''Rep.'' ''Republic'' mapped_name)"

definition get_country_id :: "pycountry \<Rightarrow> string \<Rightarrow> error + ident" where
  "get_country_id countries country_name =
     (if country_name = ''Kosovo'' then Inr (IdInt 0)
      else
        (let iso = get_name countries (map_country_name country_name);
             iso = (if iso = None then get_common_name countries (map_country_name country_name)
                    else iso)
         in case iso of
              None \<Rightarrow> Inl AttributeError
            | Some c \<Rightarrow> Inr (IdStr (numeric c))))"

text \<open>
  \<open>__get_country_id\<close> on a cell of the Country column, as \<open>budget_under_price\<close>
  calls it. For a str it is the function above. An int or a float is not equal to
  "Kosovo" and is no key of the alias table, and has no method \<open>replace\<close>: reading it
  raises AttributeError. A datetime has a method \<open>replace\<close>, which rejects the two
  str arguments with TypeError.
\<close>

fun get_country_id_of_cell :: "pycountry \<Rightarrow> cell \<Rightarrow> error + ident" where
  "get_country_id_of_cell countries (CStr s) = get_country_id countries s"
| "get_country_id_of_cell countries (CInt n) = Inl AttributeError"
| "get_country_id_of_cell countries (CFloat f) = Inl AttributeError"
| "get_country_id_of_cell countries (CDate d) = Inl TypeError"

text \<open>
  The rows of a table with their years as values of \<open>to_numeric\<close>, whichever kind
  the Year column has.
\<close>

definition rows_of :: "table \<Rightarrow> (pynum, pyfloat) row list" where
  "rows_of t = (case t of
       IntTable f \<Rightarrow> map (\<lambda>r. with_year r (NInt (Year r))) f
     | FloatTable f \<Rightarrow> map (\<lambda>r. with_year r (NFloat (Year r))) f)"


section \<open>Sample data\<close>

text \<open>A small database of countries to run the lookups on.\<close>

definition sample_countries :: pycountry where
  "sample_countries =
     \<lparr>get_name = (\<lambda>s. if s = ''United States'' then Some \<lparr>numeric = ''840''\<rparr>
                     else if s = ''Congo, The Democratic Republic of the''
                       then Some \<lparr>numeric = ''180''\<rparr>
                     else if s = ''Dominican Republic'' then Some \<lparr>numeric = ''214''\<rparr>
                     else None),
      get_common_name = (\<lambda>s. if s = ''Bolivia'' then Some \<lparr>numeric = ''068''\<rparr> else None)\<rparr>"

text \<open>
  A melted tab of three entities: A has the sentinel in 2020, B reports in 2020 and has
  an unreadable cell in 2019, C has an empty cell in 2020. Each has the annotated column.
\<close>

definition sample_melted :: raw_frame where
  "sample_melted =
     [\<lparr>label = 0, Year = CInt 2019, Entity = CStr ''A'', Budget = CInt 5\<rparr>,
      \<lparr>label = 1, Year = CInt 2020, Entity = CStr ''A'', Budget = CStr ''xxx''\<rparr>,
      \<lparr>label = 2, Year = CStr ''2020 Current'', Entity = CStr ''A'', Budget = CInt 6\<rparr>,
      \<lparr>label = 3, Year = CInt 2019, Entity = CStr ''B'', Budget = CStr ''. .''\<rparr>,
      \<lparr>label = 4, Year = CInt 2020, Entity = CStr ''B'', Budget = CFloat (Finite 7.5)\<rparr>,
      \<lparr>label = 5, Year = CStr ''2020 Current'', Entity = CStr ''B'', Budget = CInt 8\<rparr>,
      \<lparr>label = 6, Year = CInt 2019, Entity = CStr ''C'', Budget = CInt 1\<rparr>,
      \<lparr>label = 7, Year = CInt 2020, Entity = CStr ''C'', Budget = CFloat NaN\<rparr>]"

definition sample_table :: table where
  "sample_table =
     IntTable
       [\<lparr>label = 3, Year = 2019, Entity = CStr ''B'', Budget = NaN\<rparr>,
        \<lparr>label = 4, Year = 2020, Entity = CStr ''B'', Budget = Finite 7.5\<rparr>]"

text \<open>Two small sheets: regions in their unit, countries in thousandths of it.\<close>

definition sample_regional :: sheet where
  "sample_regional =
     \<lparr>df = [\<lparr>label = 0, Year = 2018, Entity = CStr ''Americas'', Budget = Finite 900\<rparr>,
             \<lparr>label = 1, Year = 2019, Entity = CStr ''Americas'', Budget = Finite 1000\<rparr>,
             \<lparr>label = 2, Year = 2019, Entity = CStr ''Europe'', Budget = Finite 300\<rparr>],
      sheet_name = ''Regional totals'',
      location_type = ''Region''\<rparr>"

definition sample_country :: sheet where
  "sample_country =
     \<lparr>df = [\<lparr>label = 0, Year = 2019, Entity = CStr ''USA'', Budget = Finite 700000\<rparr>,
             \<lparr>label = 1, Year = 2020, Entity = CStr ''USA'', Budget = Finite 750000\<rparr>,
             \<lparr>label = 2, Year = 2019, Entity = CStr ''China'', Budget = Finite 250000\<rparr>],
      sheet_name = ''Constant (2019) USD'',
      location_type = ''Country''\<rparr>"

definition sample_sipri :: sipri where
  "sample_sipri = \<lparr>constant_USD = sample_country, regional_totals = sample_regional\<rparr>"

definition sample_merged :: frame where
  "sample_merged =
     [\<lparr>label = 0, Year = 2019, Entity = CStr ''Europe'', Budget = Finite 300\<rparr>,
      \<lparr>label = 1, Year = 2018, Entity = CStr ''Americas minus US'', Budget = NaN\<rparr>,
      \<lparr>label = 2, Year = 2019, Entity = CStr ''Americas minus US'', Budget = Finite 300\<rparr>,
      \<lparr>label = 3, Year = 2020, Entity = CStr ''Americas minus US'', Budget = NaN\<rparr>,
      \<lparr>label = 4, Year = 2019, Entity = CStr ''USA'', Budget = Finite 700\<rparr>,
      \<lparr>label = 5, Year = 2020, Entity = CStr ''USA'', Budget = Finite 750\<rparr>]"

section \<open>Selection\<close>

lemma in_py_range: "y \<in> set (py_range a b) \<longleftrightarrow> a \<le> y \<and> y < b"
  by (auto simp: py_range_def)

lemma matches_refl: "matches c c"
  by (simp add: matches_def)

lemma matches_CStr [simp]: "matches c (CStr s) \<longleftrightarrow> c = CStr s"
  by (cases c) (auto simp: matches_def)

lemma isin_single_CStr [simp]: "isin c [CStr s] \<longleftrightarrow> c = CStr s"
  by (simp add: isin_def)

text \<open>
  C10. With an empty tick-year list \<open>__select_df\<close> raises IndexError at
  \<open>tick_year_list[0]\<close>; it does not return an empty frame. The merge of regions, which
  selects first, raises with it.
\<close>

theorem select_df_empty_tick_list:
  "select_df sheet country_names [] last_year = Inl IndexError
   \<and> select_df sheet country_names [] last_year \<noteq> Inr []
   \<and> merge_USA_into_regional self region_names [] = Inl IndexError"
  by (simp add: select_df_def merge_USA_into_regional_def)

text \<open>
  C6. With a tick list that starts at \<open>t\<close>, \<open>__select_df\<close> returns exactly the rows
  whose entity is among the names and whose year \<open>y\<close> has \<open>t \<le> y < last_year\<close>:
  the upper bound is exclusive.
\<close>

theorem select_df_rows:
  "select_df sheet country_names (t # ts) last_year =
     Inr (filter (\<lambda>r. isin (Entity r) country_names \<and> t \<le> Year r \<and> Year r < last_year)
            (df sheet))"
  by (auto simp: select_df_def in_py_range intro: filter_cong)

theorem select_df_rows_witness:
  "select_df sample_country [CStr ''USA''] [2019] 2020 =
     Inr [\<lparr>label = 0, Year = 2019, Entity = CStr ''USA'', Budget = Finite 700000\<rparr>]"
  using select_df_rows [of sample_country "[CStr ''USA'']" 2019 "[]" 2020]
  by (simp add: sample_country_def)

text \<open>
  C7. Selecting with the names of all entities of the frame and a year range that
  covers all its years returns the frame itself, so as many rows as it has.
\<close>

theorem select_df_round_trip:
  assumes "set country_names = Entity ` set (df sheet)"
    and "\<forall>r\<in>set (df sheet). t \<le> Year r \<and> Year r < last_year"
  shows "select_df sheet country_names (t # ts) last_year = Inr (df sheet)
         \<and> (\<forall>out. select_df sheet country_names (t # ts) last_year = Inr out
               \<longrightarrow> length out = length (df sheet))"
proof -
  have "isin (Entity r) country_names" if "r \<in> set (df sheet)" for r
    using that assms(1) matches_refl by (auto simp: isin_def)
  with assms(2)
  have "filter (\<lambda>r. Year r \<in> set (py_range t last_year) \<and> isin (Entity r) country_names)
          (df sheet) = df sheet"
    by (simp add: in_py_range)
  then show ?thesis
    by (simp add: select_df_def)
qed

theorem select_df_round_trip_witness:
  "select_df sample_regional [CStr ''Americas'', CStr ''Europe''] [2018] 2020 =
     Inr (df sample_regional)
   \<and> length (df sample_regional) = 3"
  using select_df_round_trip [of "[CStr ''Americas'', CStr ''Europe'']" sample_regional 2018 2020 "[]"]
  by (simp add: sample_regional_def)

section \<open>Country identifiers\<close>

lemma map_country_name_USA: "map_country_name ''USA'' = ''United States''"
  by (simp add: map_country_name_def sipri_to_ISO_country_map_def)

lemma map_country_name_United_States: "map_country_name ''United States'' = ''United States''"
  by (simp add: map_country_name_def sipri_to_ISO_country_map_def)

text \<open>
  C4. \<open>__get_country_id\<close> gives the same result for "USA" and for "United States",
  whatever the database holds, and the identifier 0 for "Kosovo".
\<close>

theorem alias_equivalence:
  "get_country_id countries ''USA'' = get_country_id countries ''United States''
   \<and> get_country_id countries ''Kosovo'' = Inr (IdInt 0)"
  unfolding get_country_id_def map_country_name_USA map_country_name_United_States
  by simp

theorem alias_equivalence_witness:
  "get_country_id sample_countries ''USA'' = Inr (IdStr ''840'')
   \<and> get_country_id sample_countries ''United States'' = Inr (IdStr ''840'')
   \<and> get_country_id sample_countries ''Kosovo'' = Inr (IdInt 0)"
  using alias_equivalence [of sample_countries]
  by (simp add: get_country_id_def map_country_name_United_States sample_countries_def)

lemma replace_prefix:
  "old \<noteq> [] \<Longrightarrow> replace old new (old @ s) = new @ replace old new s"
  by (cases old) simp_all

lemma replace_Dominican_Rep:
  "replace ''Rep.'' ''Republic'' ''Dominican Rep.'' = ''Dominican Republic''"
  by simp

lemma replace_every_occurrence:
  "replace ''Rep.'' ''Republic'' ''Rep. of Rep.'' = ''Republic of Republic''"
  by simp

text \<open>
  C5, as the code has it. For a name other than "Kosovo", \<open>__get_country_id\<close> first
  takes the alias of the name from \<open>sipri_to_ISO_country_map\<close> (the name itself when it
  has none), then replaces "Rep." by "Republic" in it, and looks the result up by name
  and, when that finds nothing, by common name. When neither lookup finds an entry the
  call fails with AttributeError, raised on reading \<open>numeric\<close> of None, and with no
  other error.
\<close>

theorem get_country_id_strategies:
  assumes "country_name \<noteq> ''Kosovo''"
  shows "(let aliased = (case map_of sipri_to_ISO_country_map country_name of
                          None \<Rightarrow> country_name
                        | Some m \<Rightarrow> m);
              name = replace ''Rep.'' ''Republic'' aliased;
              result = get_country_id countries country_name
          in (\<forall>c. get_name countries name = Some c \<longrightarrow> result = Inr (IdStr (numeric c)))
           \<and> (\<forall>c. get_name countries name = None \<and> get_common_name countries name = Some c
                  \<longrightarrow> result = Inr (IdStr (numeric c)))
           \<and> (get_name countries name = None \<and> get_common_name countries name = None
                  \<longleftrightarrow> result = Inl AttributeError)
           \<and> (\<forall>e. result = Inl e \<longrightarrow> e = AttributeError))"
  using assms
  by (auto simp: get_country_id_def map_country_name_def Let_def split: option.splits)

theorem get_country_id_strategies_witness:
  "get_country_id sample_countries ''Congo, Dem. Rep.'' = Inr (IdStr ''180'')
   \<and> get_country_id sample_countries ''Dominican Rep.'' = Inr (IdStr ''214'')
   \<and> get_country_id sample_countries ''Bolivia'' = Inr (IdStr ''068'')
   \<and> get_country_id sample_countries ''Atlantis, Rep.'' = Inl AttributeError"
  using get_country_id_strategies [of "''Congo, Dem. Rep.''" sample_countries]
    get_country_id_strategies [of "''Dominican Rep.''" sample_countries]
    get_country_id_strategies [of "''Bolivia''" sample_countries]
    get_country_id_strategies [of "''Atlantis, Rep.''" sample_countries]
  by (simp add: sample_countries_def sipri_to_ISO_country_map_def Let_def)

text \<open>
  C5 fails as stated. The code has no error of its own for a name without identifier:
  the call fails with the AttributeError that reading \<open>numeric\<close> of None raises, and a
  name that is no text at all, such as the int 5, fails with the same error, so the
  error does not tell an unresolved name from another fault.
\<close>

theorem unresolved_name_counterexample:
  "get_country_id sample_countries ''Atlantis'' = Inl AttributeError
   \<and> get_country_id_of_cell sample_countries (CStr ''Atlantis'') = Inl AttributeError
   \<and> get_country_id_of_cell sample_countries (CInt 5) = Inl AttributeError"
  by (simp add: get_country_id_def map_country_name_def sample_countries_def
      sipri_to_ISO_country_map_def)

section \<open>The normalized table\<close>

lemma py_eq_CStr [simp]: "py_eq c (CStr s) \<longleftrightarrow> c = CStr s"
  by (cases c) auto

lemma traverse_Inr: "traverse f xs = Inr ys \<longleftrightarrow> list_all2 (\<lambda>x y. f x = Inr y) xs ys"
proof (induction xs arbitrary: ys)
  case Nil
  then show ?case by auto
next
  case (Cons x xs)
  then show ?case
    by (cases ys) (auto simp: Cons.IH [symmetric] split: sum.splits)
qed

lemma map2_with_budget:
  assumes "length bs = length d"
  shows "map label (map2 with_budget d bs) = map label d"
    and "map Year (map2 with_budget d bs) = map Year d"
    and "map Entity (map2 with_budget d bs) = map Entity d"
    and "map Budget (map2 with_budget d bs) = bs"
  using assms by (induction bs d rule: list_induct2) (simp_all add: with_budget_def)

lemma map2_with_year:
  assumes "length ys = length d"
  shows "map label (map2 with_year d ys) = map label d"
    and "map Year (map2 with_year d ys) = ys"
    and "map Entity (map2 with_year d ys) = map Entity d"
    and "map Budget (map2 with_year d ys) = map Budget d"
  using assms by (induction ys d rule: list_induct2) (simp_all add: with_year_def)

lemma fix_budget_Inr:
  assumes "fix_budget df0 = Inr fr"
  shows "map label fr = map label (remove_dead_countries (dropna df0))"
    and "map Year fr = map Year (remove_dead_countries (dropna df0))"
    and "map Entity fr = map Entity (remove_dead_countries (dropna df0))"
    and "list_all2 (\<lambda>c b. \<exists>x. clean_budget c = Inr x \<and> b = astype_float64 x)
           (map Budget (remove_dead_countries (dropna df0))) (map Budget fr)"
proof -
  let ?d = "remove_dead_countries (dropna df0)"
  from assms obtain bs where bs: "traverse clean_budget (map Budget ?d) = Inr bs"
    and fr: "fr = map2 with_budget ?d (map astype_float64 bs)"
    by (auto simp: fix_budget_def Let_def split: sum.splits)
  from bs have all2: "list_all2 (\<lambda>c b. clean_budget c = Inr b) (map Budget ?d) bs"
    by (simp add: traverse_Inr)
  then have len: "length (map astype_float64 bs) = length ?d"
    by (auto dest: list_all2_lengthD)
  show "map label fr = map label ?d" "map Year fr = map Year ?d" "map Entity fr = map Entity ?d"
    using map2_with_budget [OF len] fr by simp_all
  from all2 have "list_all2 (\<lambda>c b. \<exists>x. clean_budget c = Inr x \<and> b = astype_float64 x)
      (map Budget ?d) (map astype_float64 bs)"
    unfolding list_all2_map2 by (rule list_all2_mono) auto
  then show "list_all2 (\<lambda>c b. \<exists>x. clean_budget c = Inr x \<and> b = astype_float64 x)
      (map Budget ?d) (map Budget fr)"
    using map2_with_budget(4) [OF len] fr by simp
qed

lemma to_numeric_length:
  "to_numeric cs = Inr (IntYears ys) \<Longrightarrow> length ys = length cs"
  "to_numeric cs = Inr (FloatYears fs) \<Longrightarrow> length fs = length cs"
  by (auto simp: to_numeric_def traverse_Inr split: sum.splits if_splits dest: list_all2_lengthD)

lemma rows_of_columns:
  "map label (rows_of (IntTable f)) = map label f"
  "map Entity (rows_of (IntTable f)) = map Entity f"
  "map Budget (rows_of (IntTable f)) = map Budget f"
  "map Year (rows_of (IntTable f)) = map (NInt \<circ> Year) f"
  "map label (rows_of (FloatTable g)) = map label g"
  "map Entity (rows_of (FloatTable g)) = map Entity g"
  "map Budget (rows_of (FloatTable g)) = map Budget g"
  "map Year (rows_of (FloatTable g)) = map (NFloat \<circ> Year) g"
  by (simp_all add: rows_of_def with_year_def)

lemma fix_year_Inr:
  assumes "fix_year fr = Inr t"
  shows "map label (rows_of t) = map label (filter (\<lambda>r. Year r \<noteq> CStr ''2020 Current'') fr)"
    and "map Entity (rows_of t) = map Entity (filter (\<lambda>r. Year r \<noteq> CStr ''2020 Current'') fr)"
    and "map Budget (rows_of t) = map Budget (filter (\<lambda>r. Year r \<noteq> CStr ''2020 Current'') fr)"
proof -
  let ?k = "filter (\<lambda>r. Year r \<noteq> CStr ''2020 Current'') fr"
  from assms consider
    (ints) ys where "to_numeric (map Year ?k) = Inr (IntYears ys)" "t = IntTable (map2 with_year ?k ys)"
  | (floats) fs where "to_numeric (map Year ?k) = Inr (FloatYears fs)" "t = FloatTable (map2 with_year ?k fs)"
    by (auto simp: fix_year_def Let_def split: sum.splits years.splits)
  then have "map label (rows_of t) = map label ?k \<and> map Entity (rows_of t) = map Entity ?k
             \<and> map Budget (rows_of t) = map Budget ?k"
  proof cases
    case ints
    from to_numeric_length(1) [OF ints(1)] have "length ys = length ?k" by simp
    from map2_with_year [OF this] ints(2) show ?thesis
      by (simp add: rows_of_columns)
  next
    case floats
    from to_numeric_length(2) [OF floats(1)] have "length fs = length ?k" by simp
    from map2_with_year [OF this] floats(2) show ?thesis
      by (simp add: rows_of_columns)
  qed
  then show "map label (rows_of t) = map label ?k" "map Entity (rows_of t) = map Entity ?k"
    "map Budget (rows_of t) = map Budget ?k"
    by simp_all
qed


lemma remove_dead_countries_isin:
  "r \<in> set (remove_dead_countries d) \<Longrightarrow> r \<in> set d \<and> isin (Entity r) (living_countries d)"
  by (simp add: remove_dead_countries_def)

lemma double_overflow_big: "2 ^ 63 < double_overflow"
  by (simp add: double_overflow_def)

lemma int64_in_double: "int64 n \<Longrightarrow> \<bar>real_of_int n\<bar> < double_overflow"
proof -
  assume "int64 n"
  then have "\<bar>n\<bar> \<le> 2 ^ 63" unfolding int64_def by linarith
  then have "\<bar>real_of_int n\<bar> \<le> 2 ^ 63"
    by (metis of_int_abs of_int_le_iff of_int_numeral of_int_power)
  with double_overflow_big show ?thesis by simp
qed

lemma clean_budget_CInt:
  "int64 n \<Longrightarrow> clean_budget (CInt n) = Inr (Some (Finite (of_int n)))"
  by (simp add: clean_budget_def int64_in_double)

lemma clean_budget_CFloat:
  "clean_budget (CFloat f) = Inr (if f = NaN then None else Some f)"
  by (simp add: clean_budget_def)

lemma clean_budget_CStr:
  "clean_budget (CStr s) = Inr (case float_of_str s of None \<Rightarrow> None | Some f \<Rightarrow> if f = NaN then None else Some f)"
  by (simp add: clean_budget_def split: option.splits)


lemma float_of_str_dots: "float_of_str ''. .'' = None"
  by (simp add: float_of_str_def utf8_length_def strip_def py_space_def is_digit_def special_def
      split_sign_def lower_def decimal_def)


lemma numeric_of_cell_CInt: "int64 n \<Longrightarrow> numeric_of_cell (CInt n) = Inr (NInt n)"
  by (simp add: int64_in_double)

lemma to_numeric_CInt:
  assumes "\<forall>n\<in>set ns. int64 n"
  shows "to_numeric (map CInt ns) = Inr (IntYears ns)"
proof -
  from assms have "traverse numeric_of_cell (map CInt ns) = Inr (map NInt ns)"
    by (induction ns) (simp_all add: int64_in_double)
  moreover from assms have "list_all (\<lambda>v. downcast v \<noteq> None) (map NInt ns)"
    by (induction ns) simp_all
  moreover from assms have "map (the \<circ> downcast) (map NInt ns) = ns"
    by (induction ns) simp_all
  ultimately show ?thesis
    by (simp add: to_numeric_def)
qed

lemma fix_budget_sample_melted:
  "fix_budget sample_melted = Inr
     [\<lparr>label = 3, Year = CInt 2019, Entity = CStr ''B'', Budget = NaN\<rparr>,
      \<lparr>label = 4, Year = CInt 2020, Entity = CStr ''B'', Budget = Finite 7.5\<rparr>,
      \<lparr>label = 5, Year = CStr ''2020 Current'', Entity = CStr ''B'', Budget = Finite 8\<rparr>]"
proof -
  have d: "dropna sample_melted = butlast sample_melted"
    by (simp add: dropna_def sample_melted_def isna_def)
  have l: "living_countries (butlast sample_melted) = [CStr ''B'']"
    by (simp add: living_countries_def sample_melted_def)
  have r: "remove_dead_countries (butlast sample_melted) =
     [\<lparr>label = 3, Year = CInt 2019, Entity = CStr ''B'', Budget = CStr ''. .''\<rparr>,
      \<lparr>label = 4, Year = CInt 2020, Entity = CStr ''B'', Budget = CFloat (Finite 7.5)\<rparr>,
      \<lparr>label = 5, Year = CStr ''2020 Current'', Entity = CStr ''B'', Budget = CInt 8\<rparr>]"
    unfolding remove_dead_countries_def l by (simp add: sample_melted_def)
  show ?thesis
    unfolding fix_budget_def d r
    by (simp add: clean_budget_CStr clean_budget_CFloat clean_budget_CInt float_of_str_dots
        with_budget_def int64_def)
qed

lemma get_df_sample_melted: "get_df sample_melted = Inr sample_table"
proof -
  have n: "to_numeric [CInt 2019, CInt 2020] = Inr (IntYears [2019, 2020])"
    using to_numeric_CInt [of "[2019, 2020]"] by (simp add: int64_def)
  show ?thesis
    unfolding get_df_def fix_budget_sample_melted
    by (simp add: fix_year_def n with_year_def sample_table_def)
qed

lemma map_triple:
  "map f xs = map f' ys \<Longrightarrow> map g xs = map g' ys \<Longrightarrow> map h xs = map h' ys
   \<Longrightarrow> map (\<lambda>x. (f x, g x, h x)) xs = map (\<lambda>y. (f' y, g' y, h' y)) ys"
  by (induction xs arbitrary: ys) auto

lemma dead_entity_absent:
  assumes "\<forall>r\<in>set (dropna melted).
             py_eq (Year r) (CInt 2020) \<and> matches E (Entity r) \<longrightarrow> Budget r = CStr ''xxx''"
    and "get_df melted = Inr t"
  shows "E \<notin> Entity ` set (rows_of t)"
proof
  assume "E \<in> Entity ` set (rows_of t)"
  then have E: "E \<in> set (map Entity (rows_of t))" by simp
  from assms(2) obtain fr where fb: "fix_budget melted = Inr fr" and fy: "fix_year fr = Inr t"
    by (auto simp: get_df_def split: sum.splits)
  from E fix_year_Inr(2) [OF fy] have "E \<in> set (map Entity fr)" by auto
  with fix_budget_Inr(3) [OF fb]
  obtain r where r: "r \<in> set (remove_dead_countries (dropna melted))" and "Entity r = E"
    by auto
  with remove_dead_countries_isin [OF r] have "isin E (living_countries (dropna melted))"
    by simp
  then obtain r' where "r' \<in> set (dropna melted)" "py_eq (Year r') (CInt 2020)"
      "Budget r' \<noteq> CStr ''xxx''" "matches E (Entity r')"
    by (auto simp: isin_def living_countries_def)
  with assms(1) show False by blast
qed

lemma living_entity_kept:
  assumes "get_df melted = Inr t"
    and "r \<in> set (dropna melted)"
    and "isin (Entity r) (living_countries (dropna melted))"
    and "Year r \<noteq> CStr ''2020 Current''"
  shows "\<exists>r'\<in>set (rows_of t). label r' = label r \<and> Entity r' = Entity r"
proof -
  from assms(1) obtain fr where fb: "fix_budget melted = Inr fr" and fy: "fix_year fr = Inr t"
    by (auto simp: get_df_def split: sum.splits)
  let ?d = "remove_dead_countries (dropna melted)"
  let ?k = "filter (\<lambda>r. Year r \<noteq> CStr ''2020 Current'') fr"
  from assms(2,3) have "r \<in> set ?d"
    by (simp add: remove_dead_countries_def)
  then have "(label r, Year r, Entity r) \<in> set (map (\<lambda>x. (label x, Year x, Entity x)) ?d)"
    by force
  also have "map (\<lambda>x. (label x, Year x, Entity x)) ?d = map (\<lambda>x. (label x, Year x, Entity x)) fr"
    using fix_budget_Inr(1,2,3) [OF fb] by (intro map_triple) simp_all
  finally obtain q where q: "q \<in> set fr" "label q = label r" "Year q = Year r" "Entity q = Entity r"
    by auto
  with assms(4) have "q \<in> set ?k" by simp
  then have "(label q, label q, Entity q) \<in> set (map (\<lambda>x. (label x, label x, Entity x)) ?k)"
    by force
  also have "map (\<lambda>x. (label x, label x, Entity x)) ?k
      = map (\<lambda>x. (label x, label x, Entity x)) (rows_of t)"
    using fix_year_Inr(1,2) [OF fy] by (intro map_triple) simp_all
  finally obtain r' where "r' \<in> set (rows_of t)" "label r' = label q" "Entity r' = Entity q"
    by auto
  with q show ?thesis by auto
qed

text \<open>
  C1, as the code has it. An entity whose 2020 rows, after the rows with an empty cell
  are dropped, all carry the sentinel "xxx" (or that has no 2020 row left) is not among
  the living countries, and the table \<open>get_df\<close> produces has no row of it, for any
  year. Every other entity is living, whatever else its 2020 cell holds, and keeps each
  of its rows without an empty cell, those labelled "2020 Current" apart.
\<close>

theorem removed_entity_has_no_rows:
  assumes "get_df melted = Inr t"
  shows "((\<forall>r\<in>set (dropna melted).
             py_eq (Year r) (CInt 2020) \<and> matches E (Entity r) \<longrightarrow> Budget r = CStr ''xxx'')
          \<longrightarrow> E \<notin> Entity ` set (rows_of t))
       \<and> (\<forall>r\<in>set (dropna melted).
             isin (Entity r) (living_countries (dropna melted)) \<and> Year r \<noteq> CStr ''2020 Current''
             \<longrightarrow> (\<exists>r'\<in>set (rows_of t). label r' = label r \<and> Entity r' = Entity r))"
  using dead_entity_absent [OF _ assms] living_entity_kept [OF assms] by blast

theorem removed_entity_has_no_rows_witness:
  "get_df sample_melted = Inr sample_table
   \<and> CStr ''A'' \<notin> Entity ` set (rows_of sample_table)
   \<and> CStr ''C'' \<notin> Entity ` set (rows_of sample_table)
   \<and> CStr ''B'' \<in> Entity ` set (rows_of sample_table)"
  using removed_entity_has_no_rows [of sample_melted sample_table "CStr ''A''", THEN conjunct1]
    removed_entity_has_no_rows [of sample_melted sample_table "CStr ''C''", THEN conjunct1]
  by (simp add: get_df_sample_melted) (simp add: sample_table_def rows_of_def with_year_def)

text \<open>
  C1 fails as stated. The filter tests the sentinel only: an entity whose 2020 cell holds
  another unreadable text has no valid budget in 2020, yet it stays in the table with
  all its years, its budget of 2020 being NaN.
\<close>

theorem unreadable_2020_cell_counterexample:
  "get_df [\<lparr>label = 0, Year = CInt 2019, Entity = CStr ''A'', Budget = CInt 5\<rparr>,
           \<lparr>label = 1, Year = CInt 2020, Entity = CStr ''A'', Budget = CStr ''. .''\<rparr>] =
     Inr (IntTable [\<lparr>label = 0, Year = 2019, Entity = CStr ''A'', Budget = Finite 5\<rparr>,
                    \<lparr>label = 1, Year = 2020, Entity = CStr ''A'', Budget = NaN\<rparr>])"
proof -
  have n: "to_numeric [CInt 2019, CInt 2020] = Inr (IntYears [2019, 2020])"
    using to_numeric_CInt [of "[2019, 2020]"] by (simp add: int64_def)
  have "fix_budget [\<lparr>label = 0, Year = CInt 2019, Entity = CStr ''A'', Budget = CInt 5\<rparr>,
           \<lparr>label = 1, Year = CInt 2020, Entity = CStr ''A'', Budget = CStr ''. .''\<rparr>] =
      Inr [\<lparr>label = 0, Year = CInt 2019, Entity = CStr ''A'', Budget = Finite 5\<rparr>,
           \<lparr>label = 1, Year = CInt 2020, Entity = CStr ''A'', Budget = NaN\<rparr>]"
    by (simp add: fix_budget_def dropna_def isna_def remove_dead_countries_def
        living_countries_def isin_def clean_budget_CInt clean_budget_CStr float_of_str_dots
        int64_def with_budget_def)
  then show ?thesis
    by (simp add: get_df_def fix_year_def n with_year_def)
qed










lemma distinct_map_inner: "distinct (map (\<lambda>x. f (g x)) xs) \<Longrightarrow> distinct (map g xs)"
  by (induction xs) auto

lemma map_pair_zip: "map (\<lambda>x. (f x, g x)) xs = zip (map f xs) (map g xs)"
  by (induction xs) auto

lemma all_CInt:
  "\<forall>c\<in>set cs. \<exists>n. c = CInt n \<and> int64 n \<Longrightarrow> \<exists>ns. cs = map CInt ns \<and> (\<forall>n\<in>set ns. int64 n)"
proof (induction cs)
  case Nil
  then show ?case by simp
next
  case (Cons c cs)
  then obtain ns where "cs = map CInt ns" "\<forall>n\<in>set ns. int64 n" by auto
  moreover from Cons.prems obtain n where "c = CInt n" "int64 n" by auto
  ultimately have "c # cs = map CInt (n # ns) \<and> (\<forall>m\<in>set (n # ns). int64 m)" by simp
  then show ?case by (rule exI)
qed

text \<open>
  C8, as the code has it. The rows of the table are the rows that \<open>fix_budget\<close> leaves,
  without those labelled "2020 Current" and otherwise unchanged in label, entity and
  budget. When every other label is an integer of 64 bits, the Year column is an integer
  column that holds these integers, so the label 2020 becomes the year 2020, and the
  pairs of entity and year are distinct in the table when they are distinct in the melted
  rows: \<open>fix_year\<close> removes no duplicate.
\<close>

theorem fix_year_integer_years:
  assumes "fix_budget melted = Inr fr"
  shows "(\<forall>t. get_df melted = Inr t \<longrightarrow>
            map label (rows_of t) = map label (filter (\<lambda>r. Year r \<noteq> CStr ''2020 Current'') fr)
            \<and> map Entity (rows_of t) = map Entity (filter (\<lambda>r. Year r \<noteq> CStr ''2020 Current'') fr)
            \<and> map Budget (rows_of t) = map Budget (filter (\<lambda>r. Year r \<noteq> CStr ''2020 Current'') fr))
         \<and> ((\<forall>r\<in>set fr. Year r = CStr ''2020 Current'' \<or> (\<exists>n. Year r = CInt n \<and> int64 n)) \<longrightarrow>
            (\<exists>f. get_df melted = Inr (IntTable f)
                \<and> map (CInt \<circ> Year) f = map Year (filter (\<lambda>r. Year r \<noteq> CStr ''2020 Current'') fr)
                \<and> (distinct (map (\<lambda>r. (Entity r, Year r))
                               (filter (\<lambda>r. Year r \<noteq> CStr ''2020 Current'') fr))
                     \<longrightarrow> distinct (map (\<lambda>r. (Entity r, Year r)) f))))"
proof -
  let ?k = "filter (\<lambda>r. Year r \<noteq> CStr ''2020 Current'') fr"
  have g: "get_df melted = fix_year fr"
    using assms by (simp add: get_df_def)
  have first: "map label (rows_of t) = map label ?k \<and> map Entity (rows_of t) = map Entity ?k
      \<and> map Budget (rows_of t) = map Budget ?k" if "get_df melted = Inr t" for t
    using fix_year_Inr [of fr t] that g by simp
  have second: "\<exists>f. get_df melted = Inr (IntTable f) \<and> map (CInt \<circ> Year) f = map Year ?k
      \<and> (distinct (map (\<lambda>r. (Entity r, Year r)) ?k) \<longrightarrow> distinct (map (\<lambda>r. (Entity r, Year r)) f))"
    if ints: "\<forall>r\<in>set fr. Year r = CStr ''2020 Current'' \<or> (\<exists>n. Year r = CInt n \<and> int64 n)"
  proof -
    from ints have "\<forall>c\<in>set (map Year ?k). \<exists>n. c = CInt n \<and> int64 n" by auto
    from all_CInt [OF this]
    obtain ns where ns: "map Year ?k = map CInt ns" and i64: "\<forall>n\<in>set ns. int64 n"
      by blast
    from ns have len: "length ns = length ?k"
      by (metis length_map)
    let ?f = "map2 with_year ?k ns"
    have t: "get_df melted = Inr (IntTable ?f)"
      unfolding g fix_year_def by (simp add: ns to_numeric_CInt [OF i64])
    have y: "map (CInt \<circ> Year) ?f = map Year ?k"
      using map2_with_year(2) [OF len] ns by (metis map_map)
    have e: "map Entity ?f = map Entity ?k"
      using map2_with_year(3) [OF len] .
    have "map (\<lambda>r. (Entity r, Year r)) ?k = map (\<lambda>r. (Entity r, (CInt \<circ> Year) r)) ?f"
      unfolding map_pair_zip y e ..
    then have "distinct (map (\<lambda>r. (Entity r, Year r)) ?f)"
      if "distinct (map (\<lambda>r. (Entity r, Year r)) ?k)"
      using that distinct_map_inner [of "\<lambda>p. (fst p, CInt (snd p))" "\<lambda>r. (Entity r, Year r)" ?f]
      by simp
    with t y show ?thesis by blast
  qed
  from first second show ?thesis by blast
qed

theorem fix_year_integer_years_witness:
  "get_df sample_melted = Inr sample_table
   \<and> map label (rows_of sample_table) = [3, 4]
   \<and> map Year (rows_of sample_table) = [NInt 2019, NInt 2020]
   \<and> distinct (map (\<lambda>r. (Entity r, Year r)) (rows_of sample_table))"
  using fix_year_integer_years [OF fix_budget_sample_melted]
  by (simp add: get_df_sample_melted) (simp add: sample_table_def rows_of_def with_year_def)

text \<open>
  C8 fails as stated. Two melted rows of one entity under the label 2020 both stay in the
  table; and next to the label 2019.5 the column stays a float column, where the label
  2020 is the float 2020.0.
\<close>

theorem duplicate_year_counterexample:
  "get_df [\<lparr>label = 0, Year = CInt 2020, Entity = CStr ''A'', Budget = CInt 1\<rparr>,
           \<lparr>label = 1, Year = CInt 2020, Entity = CStr ''A'', Budget = CInt 2\<rparr>] =
     Inr (IntTable [\<lparr>label = 0, Year = 2020, Entity = CStr ''A'', Budget = Finite 1\<rparr>,
                    \<lparr>label = 1, Year = 2020, Entity = CStr ''A'', Budget = Finite 2\<rparr>])
   \<and> get_df [\<lparr>label = 0, Year = CFloat (Finite 2019.5), Entity = CStr ''A'', Budget = CInt 1\<rparr>,
             \<lparr>label = 1, Year = CInt 2020, Entity = CStr ''A'', Budget = CInt 2\<rparr>] =
     Inr (FloatTable
           [\<lparr>label = 0, Year = Finite 2019.5, Entity = CStr ''A'', Budget = Finite 1\<rparr>,
            \<lparr>label = 1, Year = Finite 2020, Entity = CStr ''A'', Budget = Finite 2\<rparr>])"
proof -
  have n: "to_numeric [CInt 2020, CInt 2020] = Inr (IntYears [2020, 2020])"
    using to_numeric_CInt [of "[2020, 2020]"] by (simp add: int64_def)
  have m: "to_numeric [CFloat (Finite 2019.5), CInt 2020] = Inr (FloatYears [Finite 2019.5, Finite 2020])"
    by (simp add: to_numeric_def double_overflow_def int64_def trunc_def)
  have "fix_budget [\<lparr>label = 0, Year = CInt 2020, Entity = CStr ''A'', Budget = CInt 1\<rparr>,
           \<lparr>label = 1, Year = CInt 2020, Entity = CStr ''A'', Budget = CInt 2\<rparr>] =
      Inr [\<lparr>label = 0, Year = CInt 2020, Entity = CStr ''A'', Budget = Finite 1\<rparr>,
           \<lparr>label = 1, Year = CInt 2020, Entity = CStr ''A'', Budget = Finite 2\<rparr>]"
    by (simp add: fix_budget_def dropna_def isna_def remove_dead_countries_def
        living_countries_def isin_def clean_budget_CInt int64_def with_budget_def)
  moreover
  have "fix_budget [\<lparr>label = 0, Year = CFloat (Finite 2019.5), Entity = CStr ''A'', Budget = CInt 1\<rparr>,
             \<lparr>label = 1, Year = CInt 2020, Entity = CStr ''A'', Budget = CInt 2\<rparr>] =
      Inr [\<lparr>label = 0, Year = CFloat (Finite 2019.5), Entity = CStr ''A'', Budget = Finite 1\<rparr>,
           \<lparr>label = 1, Year = CInt 2020, Entity = CStr ''A'', Budget = Finite 2\<rparr>]"
    by (simp add: fix_budget_def dropna_def isna_def remove_dead_countries_def
        living_countries_def isin_def clean_budget_CInt int64_def with_budget_def)
  ultimately show ?thesis
    by (simp add: get_df_def fix_year_def n m [simplified] with_year_def)
qed

section \<open>Merging regions with the USA\<close>

lemma fsub_NaN [simp]: "fsub a NaN = NaN" "fsub NaN b = NaN"
  by (cases a; simp) simp

lemma values_at_member: "(y, a) \<in> set s \<Longrightarrow> a \<in> set (values_at s y)"
proof -
  assume "(y, a) \<in> set s"
  then have "a \<in> set (map snd (filter (\<lambda>p. fst p = y) s))" by force
  then show ?thesis
    by (cases "map snd (filter (\<lambda>p. fst p = y) s)") (simp_all add: values_at_def)
qed

lemma values_at_missing: "y \<notin> fst ` set s \<Longrightarrow> values_at s y = [NaN]"
proof -
  assume "y \<notin> fst ` set s"
  then have "filter (\<lambda>p. fst p = y) s = []"
    by (auto simp: filter_empty_conv)
  then show ?thesis by (simp add: values_at_def)
qed

lemma frame_sub_product:
  assumes "y \<in> fst ` set l \<union> fst ` set r" "a \<in> set (values_at l y)" "b \<in> set (values_at r y)"
  shows "(y, fsub a b)
     \<in> set (concat (map (\<lambda>y. concat (map (\<lambda>a. map (\<lambda>b. (y, fsub a b)) (values_at r y))
                                          (values_at l y)))
                    (sort (remdups (map fst l @ map fst r)))))"
  using assms by auto

lemma frame_sub_shared:
  assumes "(y, a) \<in> set l" and "y \<in> fst ` set r"
  shows "\<exists>b. (y, b) \<in> set r \<and> (y, fsub a b) \<in> set (frame_sub l r)"
proof (cases "map fst l = map fst r")
  case True
  from assms(1) obtain i where i: "i < length l" "l ! i = (y, a)"
    by (auto simp: in_set_conv_nth)
  from True have len: "length r = length l" by (metis length_map)
  from True i len have "fst (r ! i) = y"
    by (metis fst_conv nth_map)
  then have ri: "r ! i = (y, snd (r ! i))" by (metis prod.collapse)
  from i len have "(l ! i, r ! i) \<in> set (zip l r)"
    using nth_mem [of i "zip l r"] by simp
  then have "(fst (l ! i), fsub (snd (l ! i)) (snd (r ! i))) \<in> set (frame_sub l r)"
    using True by (force simp: frame_sub_def)
  with i ri len show ?thesis
    by (metis fst_conv nth_mem snd_conv)
next
  case False
  from assms(2) obtain b where b: "(y, b) \<in> set r" by auto
  with assms(1) have ne: "r \<noteq> []" "l \<noteq> []" by auto
  from assms(1) have "y \<in> fst ` set l \<union> fst ` set r" by force
  from frame_sub_product [OF this values_at_member [OF assms(1)] values_at_member [OF b]]
  have "(y, fsub a b) \<in> set (frame_sub l r)"
    using False ne by (simp only: frame_sub_def if_False)
  with b show ?thesis by blast
qed

lemma frame_sub_left_only:
  assumes "(y, a) \<in> set l" and "y \<notin> fst ` set r"
  shows "(y, NaN) \<in> set (frame_sub l r)"
proof -
  from assms have ne: "map fst l \<noteq> map fst r"
    by (metis fst_conv image_eqI list.set_map)
  show ?thesis
  proof (cases "r = []")
    case True
    with assms(1) ne show ?thesis by (force simp: frame_sub_def)
  next
    case False
    from assms(1) have l: "l \<noteq> []" by auto
    from assms(1) have "y \<in> fst ` set l \<union> fst ` set r" by force
    from frame_sub_product [OF this values_at_member [OF assms(1)], of NaN]
    have "(y, fsub a NaN) \<in> set (frame_sub l r)"
      using False ne l by (simp only: frame_sub_def if_False) (simp add: values_at_missing [OF assms(2)])
    then show ?thesis by simp
  qed
qed

lemma frame_sub_right_only:
  assumes "(y, b) \<in> set r" and "y \<notin> fst ` set l"
  shows "(y, NaN) \<in> set (frame_sub l r)"
proof -
  from assms have ne: "map fst l \<noteq> map fst r"
    by (metis fst_conv image_eqI list.set_map)
  from assms(1) have r: "r \<noteq> []" by auto
  show ?thesis
  proof (cases "l = []")
    case True
    with assms(1) ne r show ?thesis by (force simp: frame_sub_def)
  next
    case False
    from assms(1) have "y \<in> fst ` set l \<union> fst ` set r" by force
    from frame_sub_product [OF this _ values_at_member [OF assms(1)], of NaN]
    have "(y, fsub NaN b) \<in> set (frame_sub l r)"
      using False ne r by (simp only: frame_sub_def if_False) (simp add: values_at_missing [OF assms(2)])
    then show ?thesis by simp
  qed
qed

lemma map2_index_member:
  assumes "x \<in> set xs"
  shows "\<exists>i. f i x \<in> set (map2 f [0..<length xs] xs)"
proof -
  from assms obtain i where i: "i < length xs" "xs ! i = x"
    by (auto simp: in_set_conv_nth)
  then have "map2 f [0..<length xs] xs ! i = f i x" by simp
  moreover from i have "i < length (map2 f [0..<length xs] xs)" by simp
  ultimately show ?thesis by (metis nth_mem)
qed

lemma map2_index_origin:
  assumes "z \<in> set (map2 f [0..<length xs] xs)"
  shows "\<exists>i. \<exists>x\<in>set xs. z = f i x"
  using assms by (auto dest: set_zip_rightD)

lemma ignore_index_member:
  "r \<in> set fr \<Longrightarrow> \<exists>i. r\<lparr>label := i\<rparr> \<in> set (ignore_index fr)"
  unfolding ignore_index_def by (rule map2_index_member)

lemma ignore_index_origin:
  "z \<in> set (ignore_index fr) \<Longrightarrow> \<exists>i. \<exists>r\<in>set fr. z = r\<lparr>label := i\<rparr>"
  unfolding ignore_index_def by (rule map2_index_origin)

lemma subtract_usa_from_americas_rows:
  assumes "(y, b) \<in> set (frame_sub
      (set_index_Year (filter (\<lambda>r. Entity r = CStr ''Americas'') region_df))
      (set_index_Year usa_df))"
  shows "\<exists>i. \<lparr>label = i, Year = y, Entity = CStr ''Americas minus US'', Budget = b\<rparr>
            \<in> set (subtract_usa_from_americas region_df usa_df)"
  using map2_index_member [OF assms,
      of "\<lambda>i p. \<lparr>label = i, Year = fst p, Entity = CStr ''Americas minus US'', Budget = snd p\<rparr>"]
  by (auto simp: subtract_usa_from_americas_def Let_def)

lemma subtract_usa_from_americas_no_Americas:
  assumes "r \<in> set (subtract_usa_from_americas region_df usa_df)"
  shows "Entity r \<noteq> CStr ''Americas''"
proof -
  from assms consider
    (kept) "r \<in> set region_df"
      "label r \<notin> label ` set (filter (\<lambda>r. Entity r = CStr ''Americas'') region_df)"
  | (new) "Entity r = CStr ''Americas minus US''"
    by (auto simp: subtract_usa_from_americas_def Let_def drop_labels_def dest!: map2_index_origin)
  then show ?thesis
  proof cases
    case kept
    then show ?thesis by auto
  next
    case new
    then show ?thesis by simp
  qed
qed

lemma select_df_USA:
  assumes "select_df sh [CStr ''USA''] ticks last_year = Inr usa_sel"
    and "r \<in> set usa_sel"
  shows "Entity r = CStr ''USA''"
  using assms by (auto simp: select_df_def split: list.splits)

lemma transform_country_to_regional_rows:
  "set_index_Year (transform_country_to_regional fr) =
     map (\<lambda>r. (Year r, div1000 (Budget r))) fr"
  "Entity ` set (transform_country_to_regional fr) = Entity ` set fr"
  by (auto simp: set_index_Year_def transform_country_to_regional_def with_budget_def image_iff)

lemma merge_USA_into_regional_Americas:
  assumes "CStr ''Americas'' \<in> set region_names"
    and "select_df (regional_totals self) region_names ticks 2021 = Inr region_df"
    and "select_df (constant_USD self) [CStr ''USA''] ticks 2021 = Inr usa_sel"
  shows "merge_USA_into_regional self region_names ticks =
     Inr (ignore_index (subtract_usa_from_americas region_df (transform_country_to_regional usa_sel)
                        @ transform_country_to_regional usa_sel))"
proof -
  from assms(1) have "\<exists>n\<in>set region_names. py_eq (CStr ''Americas'') n"
    by (auto intro: bexI [of _ "CStr ''Americas''"])
  with assms(2,3) show ?thesis
    by (simp add: merge_USA_into_regional_def Let_def)
qed

lemma select_df_sample_regional:
  "select_df sample_regional [CStr ''Americas'', CStr ''Europe''] [2018] 2021 =
     Inr (df sample_regional)"
  by (simp add: select_df_def in_py_range isin_def sample_regional_def)

lemma select_df_sample_country:
  "select_df sample_country [CStr ''USA''] [2018] 2021 = Inr (butlast (df sample_country))"
  by (simp add: select_df_def in_py_range sample_country_def)

lemma frame_sub_sample:
  "frame_sub [(2018, Finite 900), (2019, Finite 1000)]
             [(2019, Finite 700), (2020, Finite 750)] =
     [(2018, NaN), (2019, Finite 300), (2020, NaN)]"
  by (simp add: frame_sub_def values_at_def)

lemma merge_sample:
  "merge_USA_into_regional sample_sipri [CStr ''Americas'', CStr ''Europe''] [2018] =
     Inr sample_merged"
proof -
  have u: "transform_country_to_regional (butlast (df sample_country)) =
     [\<lparr>label = 0, Year = 2019, Entity = CStr ''USA'', Budget = Finite 700\<rparr>,
      \<lparr>label = 1, Year = 2020, Entity = CStr ''USA'', Budget = Finite 750\<rparr>]"
    by (simp add: transform_country_to_regional_def sample_country_def with_budget_def)
  have s: "subtract_usa_from_americas (df sample_regional)
       [\<lparr>label = 0, Year = 2019, Entity = CStr ''USA'', Budget = Finite 700\<rparr>,
        \<lparr>label = 1, Year = 2020, Entity = CStr ''USA'', Budget = Finite 750\<rparr>] =
     [\<lparr>label = 2, Year = 2019, Entity = CStr ''Europe'', Budget = Finite 300\<rparr>,
      \<lparr>label = 0, Year = 2018, Entity = CStr ''Americas minus US'', Budget = NaN\<rparr>,
      \<lparr>label = 1, Year = 2019, Entity = CStr ''Americas minus US'', Budget = Finite 300\<rparr>,
      \<lparr>label = 2, Year = 2020, Entity = CStr ''Americas minus US'', Budget = NaN\<rparr>]"
    by (simp add: subtract_usa_from_americas_def sample_regional_def set_index_Year_def
        frame_sub_sample drop_labels_def upt_rec)
  have i: "ignore_index
      ([\<lparr>label = 2, Year = 2019, Entity = CStr ''Europe'', Budget = Finite 300\<rparr>,
        \<lparr>label = 0, Year = 2018, Entity = CStr ''Americas minus US'', Budget = NaN\<rparr>,
        \<lparr>label = 1, Year = 2019, Entity = CStr ''Americas minus US'', Budget = Finite 300\<rparr>,
        \<lparr>label = 2, Year = 2020, Entity = CStr ''Americas minus US'', Budget = NaN\<rparr>]
       @ [\<lparr>label = 0, Year = 2019, Entity = CStr ''USA'', Budget = Finite 700\<rparr>,
          \<lparr>label = 1, Year = 2020, Entity = CStr ''USA'', Budget = Finite 750\<rparr>]) =
     sample_merged"
    by (simp add: ignore_index_def sample_merged_def upt_rec)
  have r: "select_df (regional_totals sample_sipri) [CStr ''Americas'', CStr ''Europe''] [2018] 2021
      = Inr (df sample_regional)"
    by (simp add: sample_sipri_def select_df_sample_regional)
  have c: "select_df (constant_USD sample_sipri) [CStr ''USA''] [2018] 2021
      = Inr (butlast (df sample_country))"
    by (simp add: sample_sipri_def select_df_sample_country)
  have a: "\<exists>n\<in>set [CStr ''Americas'', CStr ''Europe'']. py_eq (CStr ''Americas'') n"
    by simp
  show ?thesis
    by (simp only: merge_USA_into_regional_def r c sum.case Let_def u if_P [OF a] s i)
qed

text \<open>
  C2. With "Americas" among the region names, the merge returns a frame in which, for
  every selected Americas row whose year the selected USA rows share, there is a row
  named "Americas minus US" for that year whose budget is the budget of the Americas row
  minus a thousandth of the budget of a USA row of that year (the USA row of that year,
  when there is one for each year); and no row of the frame is named "Americas".
\<close>

theorem merge_subtracts_usa:
  assumes "CStr ''Americas'' \<in> set region_names"
    and "select_df (regional_totals self) region_names ticks 2021 = Inr region_df"
    and "select_df (constant_USD self) [CStr ''USA''] ticks 2021 = Inr usa_sel"
  shows "\<exists>out. merge_USA_into_regional self region_names ticks = Inr out
       \<and> (\<forall>a\<in>set region_df. Entity a = CStr ''Americas'' \<and> Year a \<in> Year ` set usa_sel \<longrightarrow>
            (\<exists>u\<in>set usa_sel. Year u = Year a
               \<and> (\<exists>r\<in>set out. Entity r = CStr ''Americas minus US'' \<and> Year r = Year a
                     \<and> Budget r = fsub (Budget a) (div1000 (Budget u)))))
       \<and> (\<forall>r\<in>set out. Entity r \<noteq> CStr ''Americas'')"
proof -
  let ?usa = "transform_country_to_regional usa_sel"
  let ?sub = "subtract_usa_from_americas region_df ?usa"
  let ?out = "ignore_index (?sub @ ?usa)"
  let ?l = "set_index_Year (filter (\<lambda>r. Entity r = CStr ''Americas'') region_df)"
  let ?r = "set_index_Year ?usa"
  have out: "merge_USA_into_regional self region_names ticks = Inr ?out"
    using assms by (rule merge_USA_into_regional_Americas)
  have shared: "\<exists>u\<in>set usa_sel. Year u = Year a
       \<and> (\<exists>r\<in>set ?out. Entity r = CStr ''Americas minus US'' \<and> Year r = Year a
             \<and> Budget r = fsub (Budget a) (div1000 (Budget u)))"
    if a: "a \<in> set region_df" "Entity a = CStr ''Americas''" "Year a \<in> Year ` set usa_sel" for a
  proof -
    from a(1,2) have "(Year a, Budget a) \<in> set ?l"
      by (force simp: set_index_Year_def)
    moreover from a(3) have "Year a \<in> fst ` set ?r"
      by (force simp: transform_country_to_regional_rows)
    ultimately obtain b where b: "(Year a, b) \<in> set ?r"
      and d: "(Year a, fsub (Budget a) b) \<in> set (frame_sub ?l ?r)"
      using frame_sub_shared by blast
    from b obtain u where u: "u \<in> set usa_sel" "Year u = Year a" "b = div1000 (Budget u)"
      by (auto simp: transform_country_to_regional_rows)
    from subtract_usa_from_americas_rows [OF d] obtain i where
      "\<lparr>label = i, Year = Year a, Entity = CStr ''Americas minus US'', Budget = fsub (Budget a) b\<rparr>
         \<in> set (?sub @ ?usa)"
      by auto
    from ignore_index_member [OF this] obtain j where
      "\<lparr>label = j, Year = Year a, Entity = CStr ''Americas minus US'', Budget = fsub (Budget a) b\<rparr>
         \<in> set ?out"
      by auto
    then have "\<exists>r\<in>set ?out. Entity r = CStr ''Americas minus US'' \<and> Year r = Year a
        \<and> Budget r = fsub (Budget a) b"
      by (rule rev_bexI) simp
    with u show ?thesis by blast
  qed
  have none: "Entity z \<noteq> CStr ''Americas''" if "z \<in> set ?out" for z
  proof -
    from ignore_index_origin [OF that] obtain i r where r: "r \<in> set (?sub @ ?usa)" "z = r\<lparr>label := i\<rparr>"
      by blast
    from r(1) have "Entity r \<noteq> CStr ''Americas''"
    proof (simp only: set_append Un_iff, elim disjE)
      assume "r \<in> set ?sub"
      then show ?thesis by (rule subtract_usa_from_americas_no_Americas)
    next
      assume "r \<in> set ?usa"
      then have "Entity r \<in> Entity ` set usa_sel"
        using transform_country_to_regional_rows(2) [of usa_sel] by blast
      with select_df_USA [OF assms(3)] show ?thesis by auto
    qed
    with r(2) show ?thesis by simp
  qed
  from out shared none show ?thesis by blast
qed

theorem merge_subtracts_usa_witness:
  "merge_USA_into_regional sample_sipri [CStr ''Americas'', CStr ''Europe''] [2018] =
     Inr sample_merged
   \<and> \<lparr>label = 2, Year = 2019, Entity = CStr ''Americas minus US'', Budget = Finite 300\<rparr>
       \<in> set sample_merged
   \<and> CStr ''Americas'' \<notin> Entity ` set sample_merged"
  using merge_subtracts_usa [of "[CStr ''Americas'', CStr ''Europe'']" sample_sipri "[2018]"
      "df sample_regional" "butlast (df sample_country)"]
  by (simp add: merge_sample) (simp add: sample_merged_def)

text \<open>
  C9. The subtraction aligns the two series on the union of their years: for a year that
  only one of the selected Americas rows and the selected USA rows has, the merge still
  returns a row named "Americas minus US" for that year, whose budget is NaN, the missing
  value of the column.
\<close>

theorem merge_aligns_on_union:
  assumes "CStr ''Americas'' \<in> set region_names"
    and "select_df (regional_totals self) region_names ticks 2021 = Inr region_df"
    and "select_df (constant_USD self) [CStr ''USA''] ticks 2021 = Inr usa_sel"
  shows "\<exists>out. merge_USA_into_regional self region_names ticks = Inr out
       \<and> (\<forall>y. (y \<in> Year ` {a \<in> set region_df. Entity a = CStr ''Americas''}) \<noteq> (y \<in> Year ` set usa_sel)
              \<longrightarrow> (\<exists>r\<in>set out. Entity r = CStr ''Americas minus US'' \<and> Year r = y
                      \<and> Budget r = NaN))"
proof -
  let ?usa = "transform_country_to_regional usa_sel"
  let ?sub = "subtract_usa_from_americas region_df ?usa"
  let ?out = "ignore_index (?sub @ ?usa)"
  let ?l = "set_index_Year (filter (\<lambda>r. Entity r = CStr ''Americas'') region_df)"
  let ?r = "set_index_Year ?usa"
  have out: "merge_USA_into_regional self region_names ticks = Inr ?out"
    using assms by (rule merge_USA_into_regional_Americas)
  have "fst ` set ?l = Year ` {a \<in> set region_df. Entity a = CStr ''Americas''}"
    by (force simp: set_index_Year_def)
  moreover have "fst ` set ?r = Year ` set usa_sel"
    by (simp add: transform_country_to_regional_rows image_image)
  ultimately have keys: "fst ` set ?l = Year ` {a \<in> set region_df. Entity a = CStr ''Americas''}"
    "fst ` set ?r = Year ` set usa_sel"
    by simp_all
  have one: "\<exists>r\<in>set ?out. Entity r = CStr ''Americas minus US'' \<and> Year r = y \<and> Budget r = NaN"
    if y: "(y \<in> fst ` set ?l) \<noteq> (y \<in> fst ` set ?r)" for y
  proof -
    from y have "(y, NaN) \<in> set (frame_sub ?l ?r)"
      using frame_sub_left_only [of y _ ?l ?r] frame_sub_right_only [of y _ ?r ?l]
      by fastforce
    from subtract_usa_from_americas_rows [OF this] obtain i where
      "\<lparr>label = i, Year = y, Entity = CStr ''Americas minus US'', Budget = NaN\<rparr> \<in> set (?sub @ ?usa)"
      by auto
    from ignore_index_member [OF this] obtain j where
      "\<lparr>label = j, Year = y, Entity = CStr ''Americas minus US'', Budget = NaN\<rparr> \<in> set ?out"
      by auto
    then show ?thesis
      by (rule rev_bexI) simp
  qed
  from out one show ?thesis unfolding keys by blast
qed

theorem merge_aligns_on_union_witness:
  "merge_USA_into_regional sample_sipri [CStr ''Americas'', CStr ''Europe''] [2018] =
     Inr sample_merged
   \<and> \<lparr>label = 1, Year = 2018, Entity = CStr ''Americas minus US'', Budget = NaN\<rparr>
       \<in> set sample_merged
   \<and> \<lparr>label = 3, Year = 2020, Entity = CStr ''Americas minus US'', Budget = NaN\<rparr>
       \<in> set sample_merged"
  using merge_aligns_on_union [of "[CStr ''Americas'', CStr ''Europe'']" sample_sipri "[2018]"
      "df sample_regional" "butlast (df sample_country)"]
  by (simp add: merge_sample) (simp add: sample_merged_def)

end
